theory Spec2Isabelle
  imports Complex_Main
begin

section \<open>Time and the expiry classifier\<close>

text \<open>
  Instants are integers: milliseconds since the epoch, the value a valid JavaScript \<open>Date\<close>
  holds. A \<open>Date\<close> holds an instant of at most 8.64e15 ms from the epoch or is invalid; a
  date or a moment that may be invalid is an \<open>int option\<close>, with \<open>None\<close> for the invalid one.
  \<open>moment.diff\<close> computes in floating point; the model computes with exact rationals.
  The two have the same ceiling while the difference of the two instants is below 2^53 ms
  (as it is for every valid date seen from the clock of the present era) and the offsets
  are whole minutes.

  The zone \<open>Asia/Kolkata\<close> belongs to the time zone data of the moment library: its offset
  from UTC in minutes at an instant, the value \<open>utcOffset()\<close> gives for a moment put in
  the zone, is the parameter \<open>off\<close> (330 at every instant since 15 October 1945, other
  values before). \<open>moment.diff\<close> in days subtracts the difference of the offsets at the
  two instants, in milliseconds, before it divides by the length of a day.
\<close>

definition msPerDay :: int where
  "msPerDay = 86400000"

definition diff_days :: "(int \<Rightarrow> rat) \<Rightarrow> int \<Rightarrow> int \<Rightarrow> rat" where
  "diff_days off this that =
     (let zoneDelta = (off that - off this) * 60000
      in (of_int (this - that) - zoneDelta) / 86400000)"

text \<open>
  \<open>getDaysLeft(expiryDate)\<close> reads the clock; the instant it reads is the argument \<open>now\<close>.
  \<open>getDaysLeft\<close> is the function on a valid date. On an invalid date or moment
  \<open>moment.diff\<close> gives \<open>NaN\<close>, and so does \<open>Math.ceil\<close>: \<open>getDaysLeft_of\<close> is the function
  on a date that may be invalid, with \<open>None\<close> for \<open>NaN\<close>.
\<close>

definition getDaysLeft :: "(int \<Rightarrow> rat) \<Rightarrow> int \<Rightarrow> int \<Rightarrow> int" where
  "getDaysLeft off now expiryDate = \<lceil>diff_days off expiryDate now\<rceil>"

definition getDaysLeft_of :: "(int \<Rightarrow> rat) \<Rightarrow> int \<Rightarrow> int option \<Rightarrow> int option" where
  "getDaysLeft_of off now expiryDate = map_option (getDaysLeft off now) expiryDate"

text \<open>
  The labels of \<open>getStatusEmoji\<close> are written without the pictograph that precedes each of
  them in the source.
\<close>

definition getStatusEmoji :: "int \<Rightarrow> string" where
  "getStatusEmoji daysLeft =
     (if daysLeft \<le> 0 then ''EXPIRED''
      else if daysLeft \<le> 3 then ''URGENT''
      else if daysLeft \<le> 7 then ''WARNING''
      else ''ACTIVE'')"

section \<open>Arrays and the pager\<close>

text \<open>
  \<open>chunkArray\<close> takes pages off the front of the array object it is given with
  \<open>splice\<close>, so the array is changed by the call. Arrays therefore live in a store, a list
  of array contents indexed by address. The spread \<open>[...xs]\<close> that every caller writes
  allocates a new array with the contents of \<open>xs\<close>.
\<close>

type_synonym 'a arrays = "'a list list"

definition spread :: "'a arrays \<Rightarrow> nat \<Rightarrow> nat \<times> 'a arrays" where
  "spread st a = (length st, st @ [st ! a])"

text \<open>
  \<open>array.splice(0, n)\<close> removes \<open>min (max n 0) (length array)\<close> elements from the front and
  returns them; the pair is (removed, remaining).
\<close>

definition splice0 :: "'a list \<Rightarrow> int \<Rightarrow> 'a list \<times> 'a list" where
  "splice0 xs n = (take (nat n) xs, drop (nat n) xs)"

text \<open>
  The \<open>while\<close> loop of \<open>chunkArray\<close>. It does not end when the array is not empty and
  \<open>chunkSize\<close> is not positive, so it is a partial function: \<open>None\<close> is not returning.
\<close>

partial_function (option) chunkArray_loop ::
  "'a arrays \<Rightarrow> nat \<Rightarrow> int \<Rightarrow> 'a list list \<Rightarrow> ('a list list \<times> 'a arrays) option" where
  "chunkArray_loop st array chunkSize results =
     (if length (st ! array) \<noteq> 0
      then (case splice0 (st ! array) chunkSize of
              (removed, remaining) \<Rightarrow>
                chunkArray_loop (st[array := remaining]) array chunkSize (results @ [removed]))
      else Some (results, st))"

definition chunkArray :: "'a arrays \<Rightarrow> nat \<Rightarrow> int \<Rightarrow> ('a list list \<times> 'a arrays) option" where
  "chunkArray st array chunkSize = chunkArray_loop st array chunkSize []"

text \<open>
  The list function that the loop computes for a positive page size, used to state and
  prove the properties of the pager.
\<close>

function chunks_of :: "nat \<Rightarrow> 'a list \<Rightarrow> 'a list list" where
  "chunks_of n xs = (if xs = [] \<or> n = 0 then [] else take n xs # chunks_of n (drop n xs))"
  by pat_completeness auto
termination
  by (relation "measure (\<lambda>(n, xs). length xs)") auto

declare chunks_of.simps [simp del]

section \<open>Strings\<close>

text \<open>
  Strings are lists of characters, one character for each code unit, so that \<open>length\<close> is
  the \<open>length\<close> of the JavaScript string (a text with a code unit above 255 is outside
  the model). \<open>toString\<close> is \<open>Number.prototype.toString\<close> on
  the integers the program prints (days and counts, below the 1e21 from which JavaScript
  switches to exponent notation).
\<close>

definition digit_char :: "nat \<Rightarrow> char" where
  "digit_char n = ''0123456789'' ! n"

fun digits :: "nat \<Rightarrow> string" where
  "digits n = (if n < 10 then [digit_char n] else digits (n div 10) @ [digit_char (n mod 10)])"

declare digits.simps [simp del]

definition toString :: "int \<Rightarrow> string" where
  "toString n = (if n < 0 then CHR ''-'' # digits (nat (- n)) else digits (nat n))"

text \<open>
  The text of a number that may be \<open>NaN\<close>.
\<close>

definition number_toString :: "int option \<Rightarrow> string" where
  "number_toString n = (case n of None \<Rightarrow> ''NaN'' | Some k \<Rightarrow> toString k)"

definition startsWith :: "string \<Rightarrow> string \<Rightarrow> bool" where
  "startsWith s p = (take (length p) s = p)"

text \<open>
  The test \<open>/^[A-Z0-9-]{2,15}$/i\<close> of \<open>handleNewCarInsurance\<close>: with the flag \<open>i\<close> the class
  holds the letters of both cases, the digits and the hyphen.
\<close>

definition plate_char :: "char \<Rightarrow> bool" where
  "plate_char c =
     (let n = (of_char c :: nat)
      in (65 \<le> n \<and> n \<le> 90) \<or> (97 \<le> n \<and> n \<le> 122) \<or> (48 \<le> n \<and> n \<le> 57) \<or> n = 45)"

definition plate_pattern :: "string \<Rightarrow> bool" where
  "plate_pattern s = (2 \<le> length s \<and> length s \<le> 15 \<and> list_all plate_char s)"

text \<open>
  Two plates that match the pattern differ only in the case of their letters when they are
  equal after the letters a to z are replaced by A to Z.
\<close>

definition fold_case :: "string \<Rightarrow> string" where
  "fold_case s =
     map (\<lambda>c. case map_of (zip ''abcdefghijklmnopqrstuvwxyz'' ''ABCDEFGHIJKLMNOPQRSTUVWXYZ'') c of
                Some u \<Rightarrow> u
              | None \<Rightarrow> c) s"

section \<open>Errors\<close>

text \<open>
  The errors that are thrown in the program. \<open>TypeError\<close> is what a call of \<open>Logger.error\<close>
  throws: the class \<open>Logger\<close> has the methods \<open>log\<close>, \<open>database\<close> and \<open>startup\<close> and no
  method \<open>error\<close>, so every catch block that calls it throws in its turn.
  \<open>InvalidStringLength\<close> is the error of a builder that refuses a text,
  \<open>ValidationError\<close> the error of \<open>save\<close> when a validator or a cast of the schema fails,
  and \<open>E11000\<close> the error of the database, with the code 11000, for a duplicate key.
\<close>

datatype js_error = TypeError | InvalidStringLength | ValidationError | E11000

section \<open>The record store\<close>

text \<open>
  A document of the collection \<open>CarInsurance\<close>, with the fields of \<open>carInsuranceSchema\<close>.
  The collection is the list of its documents in the order of insertion. A stored date
  is valid.
\<close>

record car =
  carName :: string
  numberPlate :: string
  expiryDate :: int
  addedBy :: string
  lastUpdated :: int

type_synonym collection = "car list"

text \<open>
  \<open>findOne({ numberPlate })\<close> compares the plate for equality, character by character.
\<close>

definition findOne :: "collection \<Rightarrow> string \<Rightarrow> car option" where
  "findOne coll plate = find (\<lambda>c. numberPlate c = plate) coll"

text \<open>
  \<open>save\<close> of the new document made from a name, a plate, an expiry date that may be invalid,
  the tag of the user and the present instant (the default of \<open>lastUpdated\<close>). The
  validators of the schema run first: a required string must not be empty, and an invalid
  date cannot be cast. Then comes the insertion, which the unique index on \<open>numberPlate\<close>
  refuses when a document already has the same plate. The index has no collation, so it
  compares plates as they are written.
\<close>

definition save_new ::
  "collection \<Rightarrow> string \<Rightarrow> string \<Rightarrow> int option \<Rightarrow> string \<Rightarrow> int \<Rightarrow> js_error + collection" where
  "save_new coll carName' numberPlate' expiryDate' addedBy' now =
     (case expiryDate' of
        None \<Rightarrow> Inl ValidationError
      | Some expiry \<Rightarrow>
          if carName' = [] \<or> numberPlate' = [] \<or> addedBy' = [] then Inl ValidationError
          else if findOne coll numberPlate' \<noteq> None then Inl E11000
          else Inr (coll @ [\<lparr>carName = carName', numberPlate = numberPlate',
                              expiryDate = expiry, addedBy = addedBy', lastUpdated = now\<rparr>]))"

text \<open>
  \<open>save\<close> of a document that \<open>findOne\<close> returned, after a new expiry date, which may be
  invalid, and the present instant as update stamp were assigned to it. The cast of an
  invalid date fails. The document written is the one that was read, the first with the
  plate.
\<close>

fun replace_first :: "string \<Rightarrow> car \<Rightarrow> collection \<Rightarrow> collection" where
  "replace_first plate doc [] = []"
| "replace_first plate doc (c # cs) =
     (if numberPlate c = plate then doc # cs else c # replace_first plate doc cs)"

definition save_loaded :: "collection \<Rightarrow> car \<Rightarrow> int option \<Rightarrow> int \<Rightarrow> js_error + collection" where
  "save_loaded coll doc expiryDate' now =
     (case expiryDate' of
        None \<Rightarrow> Inl ValidationError
      | Some expiry \<Rightarrow>
          Inr (replace_first (numberPlate doc)
                 (doc\<lparr>expiryDate := expiry, lastUpdated := now\<rparr>) coll))"

section \<open>Moment objects\<close>

text \<open>
  A moment is a mutable object: \<open>add\<close>, \<open>subtract\<close> and \<open>tz\<close> change the object they are
  called on and return that same object, \<open>clone\<close> and \<open>moment(x)\<close> make a new one. Moments
  live in a heap, a list indexed by reference. A moment holds an instant, or is invalid,
  and the zone it is in: the zone of the host, in which \<open>moment(x)\<close> makes it, or the
  zone \<open>Asia/Kolkata\<close> after \<open>tz\<close>.

  Adding days to a moment belongs to the moment library, which adds them on the calendar of
  the zone of the moment and keeps the time of day. Its result is the parameter \<open>addDays\<close>:
  for a zone, an instant and a number of days, the new instant, or \<open>None\<close> when the result
  leaves the range of \<open>Date\<close>, so that the date of the moment is invalid. \<open>subtract\<close> adds
  the negated number. An invalid moment stays as it is.
\<close>

datatype tz = HostZone | AsiaKolkata

record moment =
  valueOf :: "int option"
  zone :: tz

type_synonym moments = "moment list"

definition moment_new :: "moments \<Rightarrow> int option \<Rightarrow> nat \<times> moments" where
  "moment_new h d = (length h, h @ [\<lparr>valueOf = d, zone = HostZone\<rparr>])"

definition m_clone :: "moments \<Rightarrow> nat \<Rightarrow> nat \<times> moments" where
  "m_clone h r = (length h, h @ [h ! r])"

definition m_add ::
  "(tz \<Rightarrow> int \<Rightarrow> int \<Rightarrow> int option) \<Rightarrow> moments \<Rightarrow> nat \<Rightarrow> int \<Rightarrow> nat \<times> moments" where
  "m_add addDays h r days =
     (r, h[r := (h ! r)\<lparr>valueOf := (case valueOf (h ! r) of
                                        None \<Rightarrow> None
                                      | Some t \<Rightarrow> addDays (zone (h ! r)) t days)\<rparr>])"

definition m_subtract ::
  "(tz \<Rightarrow> int \<Rightarrow> int \<Rightarrow> int option) \<Rightarrow> moments \<Rightarrow> nat \<Rightarrow> int \<Rightarrow> nat \<times> moments" where
  "m_subtract addDays h r days =
     (r, h[r := (h ! r)\<lparr>valueOf := (case valueOf (h ! r) of
                                        None \<Rightarrow> None
                                      | Some t \<Rightarrow> addDays (zone (h ! r)) t (- days))\<rparr>])"

definition m_tz :: "moments \<Rightarrow> nat \<Rightarrow> tz \<Rightarrow> nat \<times> moments" where
  "m_tz h r z = (r, h[r := (h ! r)\<lparr>zone := z\<rparr>])"

definition m_toDate :: "moments \<Rightarrow> nat \<Rightarrow> int option" where
  "m_toDate h r = valueOf (h ! r)"

text \<open>
  \<open>format('DD MMM YYYY')\<close> belongs to the moment library; the text it gives for an
  instant in a zone is the parameter \<open>fmt\<close>. The text for an invalid moment is
  \<open>Invalid date\<close>; no handler comes to format one, since each formats its moments after
  the date was saved or the days left were found to be a number.
\<close>

definition m_format :: "(tz \<Rightarrow> int \<Rightarrow> string) \<Rightarrow> moments \<Rightarrow> nat \<Rightarrow> string" where
  "m_format fmt h r =
     (case valueOf (h ! r) of
        None \<Rightarrow> ''Invalid date''
      | Some t \<Rightarrow> fmt (zone (h ! r)) t)"

text \<open>
  What \<open>addDays\<close> is for a host on UTC and for \<open>Asia/Kolkata\<close> at its offset of 330
  minutes, which it has at every instant since 15 October 1945: the days are days of
  86400000 ms. The moment of a zone with an offset keeps its wall-clock time in a \<open>Date\<close>,
  so the result is valid when the wall-clock time and the instant are both within the
  range of \<open>Date\<close>. It stands for the library where a concrete one is needed.
\<close>

definition addDays_fixed :: "tz \<Rightarrow> int \<Rightarrow> int \<Rightarrow> int option" where
  "addDays_fixed z t days =
     (let shift = (case z of HostZone \<Rightarrow> 0 | AsiaKolkata \<Rightarrow> 330 * 60000);
          t' = t + days * msPerDay
      in if - 8640000000000000 \<le> t' \<and> t' \<le> 8640000000000000
            \<and> - 8640000000000000 \<le> t' + shift \<and> t' + shift \<le> 8640000000000000
         then Some t' else None)"

section \<open>Messages and the embed builder\<close>

text \<open>
  Of an embed the title, the description and the fields (\<open>field_list\<close>, each a name and
  a text) are kept; a description that was never set is the empty string. Colours,
  thumbnails and footers are left out, and so is the pictograph at the head of a title, of
  a field name or of a line of text. Of a message the content, the embeds, the custom ids
  of its buttons and the ephemeral flag are kept.
\<close>

record embed =
  title :: string
  description :: string
  field_list :: "(string \<times> string) list"

record message =
  content :: "string option"
  embeds :: "embed list"
  components :: "string list"
  ephemeral :: bool

text \<open>
  The setters of \<open>EmbedBuilder\<close> check their arguments before they store them (the builders
  of discord.js parse them with predicates) and throw when the check fails: a description
  is a string of length at least 1 and at most 4096, the name of a field has at least 1
  and at most 256 characters and its text at least 1 and at most 1024, and an embed has at
  most 25 fields. The builders make their checks unless \<open>disableValidators()\<close> was called,
  which the program never does; the flag is the first argument of \<open>setDescription\<close>. The
  titles are literals of the program, within the limits.
\<close>

definition setDescription :: "bool \<Rightarrow> string \<Rightarrow> embed \<Rightarrow> js_error + embed" where
  "setDescription validators d e =
     (if validators \<and> \<not> (1 \<le> length d \<and> length d \<le> 4096) then Inl InvalidStringLength
      else Inr (e\<lparr>description := d\<rparr>))"

definition field_ok :: "string \<times> string \<Rightarrow> bool" where
  "field_ok f =
     (1 \<le> length (fst f) \<and> length (fst f) \<le> 256 \<and> 1 \<le> length (snd f) \<and> length (snd f) \<le> 1024)"

definition addFields :: "(string \<times> string) list \<Rightarrow> embed \<Rightarrow> js_error + embed" where
  "addFields fs e =
     (if length (field_list e) + length fs \<le> 25 \<and> list_all field_ok fs
      then Inr (e\<lparr>field_list := field_list e @ fs\<rparr>)
      else Inl InvalidStringLength)"

text \<open>
  The chain that builds the embed of a reply: the title, then the description if the
  program sets one, then the fields if it adds any.
\<close>

definition build_embed ::
  "string \<Rightarrow> string option \<Rightarrow> (string \<times> string) list \<Rightarrow> js_error + embed" where
  "build_embed t d fs =
     (case (case d of
              None \<Rightarrow> Inr \<lparr>title = t, description = [], field_list = []\<rparr>
            | Some d' \<Rightarrow> setDescription True d' \<lparr>title = t, description = [], field_list = []\<rparr>) of
        Inl err \<Rightarrow> Inl err
      | Inr e \<Rightarrow> (if fs = [] then Inr e else addFields fs e))"

definition embed_reply :: "bool \<Rightarrow> embed \<Rightarrow> message" where
  "embed_reply eph e = \<lparr>content = None, embeds = [e], components = [], ephemeral = eph\<rparr>"

text \<open>
  What a handler does with the interaction: it replies, or it throws. A reply that the
  platform refuses is not part of the model.
\<close>

datatype outcome = Replied message | Thrown js_error

text \<open>
  \<open>interaction.reply\<close> with the embed that a chain builds: the reply, or the error of the
  builder.
\<close>

definition reply_built :: "bool \<Rightarrow> js_error + embed \<Rightarrow> js_error + message" where
  "reply_built eph built =
     (case built of Inl err \<Rightarrow> Inl err | Inr e \<Rightarrow> Inr (embed_reply eph e))"

section \<open>The commands that create and change a record\<close>

text \<open>
  Each handler runs at one instant \<open>now\<close> (every reading of the clock within one run gives
  it). A handler takes the collection and returns it as it left it, with the outcome. The
  arguments after the collection are the tag of the invoking user and the options of the
  command. \<open>getDaysLeft\<close> copies the moment it is given before it sets the zone of the copy,
  so it is applied to the instant of that moment.

  The body of a handler is a \<open>try\<close> block: its result is the collection as the block left
  it and the reply it sent or the error thrown in it. The \<open>catch\<close> block of
  \<open>handleNewCarInsurance\<close> answers an error with the code 11000 by the notice of the
  duplicate; for any other error it calls \<open>Logger.error\<close>, and so do the \<open>catch\<close> blocks of
  the other handlers for every error: the handler throws \<open>TypeError\<close>, and what the
  block has written to the collection before stays written.
\<close>

definition handleNewCarInsurance ::
  "(tz \<Rightarrow> int \<Rightarrow> int \<Rightarrow> int option) \<Rightarrow> (tz \<Rightarrow> int \<Rightarrow> string) \<Rightarrow> int \<Rightarrow> collection
     \<Rightarrow> string \<Rightarrow> string \<Rightarrow> string \<Rightarrow> int \<Rightarrow> collection \<times> outcome" where
  "handleNewCarInsurance addDays fmt now coll user_tag carName' numberPlate' daysLeft =
     (let (coll1, tried) =
        (if \<not> plate_pattern numberPlate' then
           (coll, reply_built True
              (build_embed ''INVALID NUMBER PLATE''
                 (Some ''Please use 2-15 alphanumeric characters (hyphens allowed)'')
                 [(''Your Input'', numberPlate'), (''Example'', ''MH01-AB-1234'')]))
         else
           let (m0, h1) = moment_new [] (Some now);
               (m1, h2) = m_tz h1 m0 AsiaKolkata;
               (m2, h3) = m_add addDays h2 m1 daysLeft;
               expiryDate' = m_toDate h3 m2
           in case save_new coll carName' numberPlate' expiryDate' user_tag now of
                Inl err \<Rightarrow> (coll, Inl err)
              | Inr coll' \<Rightarrow>
                  let (e0, h4) = moment_new h3 expiryDate';
                      (e1, h5) = m_tz h4 e0 AsiaKolkata
                  in (coll', reply_built False
                        (build_embed ''NEW INSURANCE REGISTERED'' None
                           [(''Car Name'', carName'),
                            (''Number Plate'', numberPlate'),
                            (''Expiry Date'', m_format fmt h5 e1),
                            (''Days Valid'', toString daysLeft),
                            (''Registered By'', user_tag)])))
      in case tried of
           Inr m \<Rightarrow> (coll1, Replied m)
         | Inl err \<Rightarrow>
             if err = E11000 then
               (case reply_built True
                       (build_embed ''DUPLICATE ENTRY''
                          (Some (''Number plate **'' @ numberPlate' @ ''** already exists''))
                          [(''Existing Entry'', ''Check `/list_car_insurance`''),
                           (''Need Help?'', ''Contact server admins'')]) of
                  Inr m \<Rightarrow> (coll1, Replied m)
                | Inl err' \<Rightarrow> (coll1, Thrown err'))
             else (coll1, Thrown TypeError))"

text \<open>
  The two notices for a plate that names no record. The first is sent before the \<open>try\<close>
  block, so an error of its builder leaves the handler as it is.
\<close>

definition car_not_found :: "string \<Rightarrow> js_error + message" where
  "car_not_found numberPlate' =
     reply_built True
       (build_embed ''CAR NOT FOUND''
          (Some (''Use `/new_car_insurance` to register:'' @ [CHR 0x0A] @ ''**''
                 @ drop (length ''new_car_'') numberPlate' @ ''**''))
          [])"

definition record_not_found :: "string \<Rightarrow> js_error + message" where
  "record_not_found numberPlate' =
     reply_built True
       (build_embed ''RECORD NOT FOUND''
          (Some (''No insurance found for:'' @ [CHR 0x0A] @ ''**'' @ numberPlate' @ ''**''))
          [])"

definition handleAddCarInsurance ::
  "(int \<Rightarrow> rat) \<Rightarrow> (tz \<Rightarrow> int \<Rightarrow> int \<Rightarrow> int option) \<Rightarrow> (tz \<Rightarrow> int \<Rightarrow> string) \<Rightarrow> int \<Rightarrow> collection
     \<Rightarrow> string \<Rightarrow> string \<Rightarrow> int \<Rightarrow> collection \<times> outcome" where
  "handleAddCarInsurance off addDays fmt now coll user_tag numberPlate' daysToAdd =
     (if startsWith numberPlate' ''new_car_'' then
        (coll, case car_not_found numberPlate' of Inr m \<Rightarrow> Replied m | Inl err \<Rightarrow> Thrown err)
      else
        let (coll1, tried) =
          (case findOne coll numberPlate' of
             None \<Rightarrow> (coll, record_not_found numberPlate')
           | Some car \<Rightarrow>
               let (oldExpiry, h1) = moment_new [] (Some (expiryDate car));
                   (newExpiry, h2) = m_add addDays h1 oldExpiry daysToAdd;
                   daysLeft = getDaysLeft_of off now (m_toDate h2 newExpiry)
               in case save_loaded coll car (m_toDate h2 newExpiry) now of
                    Inl err \<Rightarrow> (coll, Inl err)
                  | Inr coll' \<Rightarrow>
                      let (o1, h3) = m_tz h2 oldExpiry AsiaKolkata;
                          oldText = m_format fmt h3 o1;
                          (n1, h4) = m_tz h3 newExpiry AsiaKolkata;
                          newText = m_format fmt h4 n1
                      in (coll', reply_built False
                            (build_embed ''INSURANCE EXTENDED'' None
                               [(''Car Name'', carName car),
                                (''Number Plate'', numberPlate'),
                                (''Old Expiry'', oldText),
                                (''New Expiry'', newText),
                                (''Days Added'', toString daysToAdd),
                                (''Total Days Left'', number_toString daysLeft),
                                (''Updated By'', user_tag)])))
        in case tried of
             Inr m \<Rightarrow> (coll1, Replied m)
           | Inl err \<Rightarrow> (coll1, Thrown TypeError))"

text \<open>
  In \<open>handleLessCarInsurance\<close> the test \<open>daysLeft < 0\<close> is false when the days left
  are \<open>NaN\<close>.
\<close>

definition handleLessCarInsurance ::
  "(int \<Rightarrow> rat) \<Rightarrow> (tz \<Rightarrow> int \<Rightarrow> int \<Rightarrow> int option) \<Rightarrow> (tz \<Rightarrow> int \<Rightarrow> string) \<Rightarrow> int \<Rightarrow> collection
     \<Rightarrow> string \<Rightarrow> string \<Rightarrow> int \<Rightarrow> collection \<times> outcome" where
  "handleLessCarInsurance off addDays fmt now coll user_tag numberPlate' daysToSubtract =
     (if startsWith numberPlate' ''new_car_'' then
        (coll, case car_not_found numberPlate' of Inr m \<Rightarrow> Replied m | Inl err \<Rightarrow> Thrown err)
      else
        let (coll1, tried) =
          (case findOne coll numberPlate' of
             None \<Rightarrow> (coll, record_not_found numberPlate')
           | Some car \<Rightarrow>
               let (oldExpiry, h1) = moment_new [] (Some (expiryDate car));
                   (c0, h2) = m_clone h1 oldExpiry;
                   (newExpiry, h3) = m_subtract addDays h2 c0 daysToSubtract;
                   daysLeft = getDaysLeft_of off now (m_toDate h3 newExpiry)
               in if (case daysLeft of None \<Rightarrow> False | Some n \<Rightarrow> n < 0) then
                    let (o1, h4) = m_tz h3 oldExpiry AsiaKolkata;
                        oldText = m_format fmt h4 o1;
                        (n1, h5) = m_tz h4 newExpiry AsiaKolkata;
                        newText = m_format fmt h5 n1
                    in (coll, reply_built True
                          (build_embed ''INVALID ADJUSTMENT''
                             (Some (''Cannot subtract '' @ toString daysToSubtract @ '' days''))
                             [(''Current Expiry'', oldText),
                              (''Resulting Expiry'', newText),
                              (''Days Left'', number_toString daysLeft)]))
                  else
                    case save_loaded coll car (m_toDate h3 newExpiry) now of
                      Inl err \<Rightarrow> (coll, Inl err)
                    | Inr coll' \<Rightarrow>
                        let (o1, h4) = m_tz h3 oldExpiry AsiaKolkata;
                            oldText = m_format fmt h4 o1;
                            (n1, h5) = m_tz h4 newExpiry AsiaKolkata;
                            newText = m_format fmt h5 n1
                        in (coll', reply_built False
                              (build_embed ''INSURANCE REDUCED'' None
                                 [(''Car Name'', carName car),
                                  (''Number Plate'', numberPlate'),
                                  (''Old Expiry'', oldText),
                                  (''New Expiry'', newText),
                                  (''Days Reduced'', toString daysToSubtract),
                                  (''Total Days Left'', number_toString daysLeft),
                                  (''Updated By'', user_tag)])))
        in case tried of
             Inr m \<Rightarrow> (coll1, Replied m)
           | Inl err \<Rightarrow> (coll1, Thrown TypeError))"

section \<open>The daily alert\<close>

text \<open>
  The role identifiers that the process reads from its environment.
\<close>

record env =
  ADMIN_ROLE_ID :: string
  MANAGER_ROLE_ID :: string
  HIGH_COMMAND_ROLE_ID :: string
  FOUNDER_ROLE_ID :: string
  CO_FOUNDER_ROLE_ID :: string
  SLAYER_ROLE_ID :: string

text \<open>
  The field that renders one record. \<open>toUpperCase\<close> is the method of the strings of
  JavaScript and \<open>fromNow\<close> belongs to the moment library: the upper case of a text is the
  parameter \<open>upper\<close>, and the words for an instant, seen from the present one, are the
  parameter \<open>fromNow\<close>.
\<close>

definition car_field ::
  "(int \<Rightarrow> rat) \<Rightarrow> (string \<Rightarrow> string) \<Rightarrow> (tz \<Rightarrow> int \<Rightarrow> string) \<Rightarrow> (int \<Rightarrow> int \<Rightarrow> string) \<Rightarrow> int \<Rightarrow> car
     \<Rightarrow> string \<times> string" where
  "car_field off upper fmt fromNow now car =
     (let daysLeft = getDaysLeft off now (expiryDate car)
      in (getStatusEmoji daysLeft @ '' '' @ upper (carName car)
            @ '' ('' @ numberPlate car @ '')'',
          ''**Expiry:** '' @ fmt AsiaKolkata (expiryDate car) @ [CHR 0x0A]
            @ ''**Days Left:** '' @ toString daysLeft @ [CHR 0x0A]
            @ ''**Added By:** '' @ addedBy car @ [CHR 0x0A]
            @ ''**Last Updated:** '' @ fromNow now (lastUpdated car)))"

text \<open>
  The embed and the content of the message for the page with the given index. The count in
  the banner is \<open>alertList.length\<close>, read when the page is built, after the pages were cut.
  The description is set with \<open>setDescription\<close>, which the program gives the empty string
  for every page after the first. The fields of the records are taken to be within the
  limits of the builder.
\<close>

definition alert_embed ::
  "bool \<Rightarrow> (int \<Rightarrow> rat) \<Rightarrow> (string \<Rightarrow> string) \<Rightarrow> (tz \<Rightarrow> int \<Rightarrow> string) \<Rightarrow> (int \<Rightarrow> int \<Rightarrow> string) \<Rightarrow> int
     \<Rightarrow> nat \<Rightarrow> nat \<Rightarrow> car list \<Rightarrow> js_error + embed" where
  "alert_embed validators off upper fmt fromNow now alertList_length index chunk =
     (case setDescription validators
             (if index = 0
              then ''**'' @ toString (int alertList_length) @ '' CAR''
                   @ (if alertList_length > 1 then ''S'' else [])
                   @ '' NEED ATTENTION!**''
              else [])
             \<lparr>title = (if index = 0 then ''INSURANCE EXPIRY ALERT''
                       else ''INSURANCE EXPIRY ALERT (PART '' @ toString (int index + 1) @ '')''),
              description = [],
              field_list = []\<rparr> of
        Inl err \<Rightarrow> Inl err
      | Inr built \<Rightarrow>
          Inr (built\<lparr>field_list := map (car_field off upper fmt fromNow now) chunk\<rparr>))"

definition alert_content :: "env \<Rightarrow> nat \<Rightarrow> string option" where
  "alert_content e index =
     (if index = 0
      then Some (''<@&'' @ FOUNDER_ROLE_ID e @ ''>'' @ '' ''
                 @ ''<@&'' @ CO_FOUNDER_ROLE_ID e @ ''>'' @ '' ''
                 @ ''<@&'' @ HIGH_COMMAND_ROLE_ID e @ ''>'' @ '' ''
                 @ ''<@&'' @ SLAYER_ROLE_ID e @ ''>''
                 @ [CHR 0x0A] @ ''**IMMEDIATE ATTENTION REQUIRED**'')
      else None)"

text \<open>
  The loop over \<open>carChunks.entries()\<close>: for each page, in order, the embed is built and the
  message is sent to the channel. The channel is the list of the messages posted to it,
  oldest first. An error thrown while a page is built ends the loop, and the messages sent
  before stay in the channel. The result is the channel and the error thrown, if any. A
  send that the platform refuses is not part of the model.
\<close>

fun send_chunks ::
  "bool \<Rightarrow> env \<Rightarrow> (int \<Rightarrow> rat) \<Rightarrow> (string \<Rightarrow> string) \<Rightarrow> (tz \<Rightarrow> int \<Rightarrow> string) \<Rightarrow> (int \<Rightarrow> int \<Rightarrow> string)
     \<Rightarrow> int \<Rightarrow> car arrays \<Rightarrow> nat \<Rightarrow> nat \<Rightarrow> car list list \<Rightarrow> message list
     \<Rightarrow> message list \<times> js_error option" where
  "send_chunks validators e off upper fmt fromNow now st alertList index [] posted =
     (posted, None)"
| "send_chunks validators e off upper fmt fromNow now st alertList index (chunk # rest) posted =
     (case alert_embed validators off upper fmt fromNow now (length (st ! alertList)) index
             chunk of
        Inl err \<Rightarrow> (posted, Some err)
      | Inr built \<Rightarrow>
          send_chunks validators e off upper fmt fromNow now st alertList (Suc index) rest
            (posted @ [\<lparr>content = alert_content e index,
                        embeds = [built],
                        components = [],
                        ephemeral = False\<rparr>]))"

text \<open>
  How the job ends: the channel as the job left it, the error that its \<open>catch\<close> block
  caught, if any, and the error with which the promise of the job is rejected, if any.
  The \<open>catch\<close> block calls \<open>Logger.error\<close>, so a job that caught an error is rejected
  with \<open>TypeError\<close>.
\<close>

record job_result =
  channel_after :: "message list option"
  caught :: "js_error option"
  rejected :: "js_error option"

definition job_end :: "message list option \<Rightarrow> js_error option \<Rightarrow> job_result" where
  "job_end channel err =
     \<lparr>channel_after = channel, caught = err,
      rejected = (case err of None \<Rightarrow> None | Some x \<Rightarrow> Some TypeError)\<rparr>"

text \<open>
  The job of the daily rule. The channel is \<open>None\<close> when the alert channel is not found:
  the job then calls \<open>Logger.error\<close> itself, inside its \<open>try\<close> block. The result is \<open>None\<close>
  when the job does not return.
\<close>

definition scheduledJob ::
  "bool \<Rightarrow> env \<Rightarrow> (int \<Rightarrow> rat) \<Rightarrow> (string \<Rightarrow> string) \<Rightarrow> (tz \<Rightarrow> int \<Rightarrow> string) \<Rightarrow> (int \<Rightarrow> int \<Rightarrow> string)
     \<Rightarrow> int \<Rightarrow> message list option \<Rightarrow> collection \<Rightarrow> job_result option" where
  "scheduledJob validators e off upper fmt fromNow now alertChannel coll =
     (case alertChannel of
        None \<Rightarrow> Some (job_end None (Some TypeError))
      | Some posted \<Rightarrow>
          let cars = coll;
              st0 = [filter (\<lambda>car. getDaysLeft off now (expiryDate car) \<le> 3) cars];
              alertList = 0
          in if length (st0 ! alertList) > 0 then
               (case spread st0 alertList of
                  (copy, st1) \<Rightarrow>
                    (case chunkArray st1 copy 10 of
                       None \<Rightarrow> None
                     | Some (carChunks, st2) \<Rightarrow>
                         (case send_chunks validators e off upper fmt fromNow now st2 alertList
                                 0 carChunks posted of
                            (posted', err) \<Rightarrow> Some (job_end (Some posted') err))))
             else Some (job_end (Some posted) None))"

section \<open>The list view and its collector\<close>

text \<open>
  A button interaction in the channel: the id of the user who clicked and the custom id of
  the button. The collector of \<open>handleListCarInsurance\<close> lives for 60 seconds; the clicks
  given to it are those that arrive in that time, in their order.
\<close>

record click =
  clicker :: string
  customId :: string

definition list_filter :: "string \<Rightarrow> click \<Rightarrow> bool" where
  "list_filter operator i = (clicker i = operator \<and> customId i = ''insurance_list_next'')"

record pager_view =
  currentPage :: nat
  shown :: message

definition on_collect :: "embed list \<Rightarrow> pager_view \<Rightarrow> pager_view" where
  "on_collect pages v =
     (let p = currentPage v + 1;
          p' = (if p \<ge> length pages then 0 else p)
      in \<lparr>currentPage = p',
          shown = \<lparr>content = None, embeds = [pages ! p'],
                   components = [''insurance_list_prev'', ''insurance_list_next''],
                   ephemeral = True\<rparr>\<rparr>)"

fun collector :: "string \<Rightarrow> embed list \<Rightarrow> pager_view \<Rightarrow> click list \<Rightarrow> pager_view" where
  "collector operator pages v [] = v"
| "collector operator pages v (i # rest) =
     collector operator pages (if list_filter operator i then on_collect pages v else v) rest"

text \<open>
  The end of \<open>handleListCarInsurance\<close>, from the embeds it has built: one embed is the
  whole reply; with more, the first is shown with the button for the next page and the
  collector turns the pages.
\<close>

definition list_view :: "string \<Rightarrow> embed list \<Rightarrow> click list \<Rightarrow> pager_view" where
  "list_view operator pages clicks =
     (if length pages = 1 then
        \<lparr>currentPage = 0,
         shown = \<lparr>content = None, embeds = pages, components = [], ephemeral = True\<rparr>\<rparr>
      else
        collector operator pages
          \<lparr>currentPage = 0,
           shown = \<lparr>content = None, embeds = [pages ! 0],
                    components = [''insurance_list_next''], ephemeral = True\<rparr>\<rparr>
          clicks)"

section \<open>The dispatch of interactions\<close>

datatype interaction_type = Autocomplete | Command | OtherInteraction

record interaction =
  inGuild :: bool
  itype :: interaction_type
  commandName :: string
  focusedValue :: string
  memberRoles :: "string list"

definition checkRoles :: "env \<Rightarrow> string list \<Rightarrow> bool" where
  "checkRoles e roles =
     list_ex (\<lambda>roleId. roleId \<in> set roles)
       [ADMIN_ROLE_ID e, MANAGER_ROLE_ID e, HIGH_COMMAND_ROLE_ID e, FOUNDER_ROLE_ID e,
        CO_FOUNDER_ROLE_ID e]"

text \<open>
  The query of the autocomplete branch gives the typed text to the database as a regular
  expression. The regular expressions of the database are the parameter \<open>regex\<close>: for a
  pattern, \<open>None\<close> when the pattern is refused (the query throws), and otherwise the test
  that the pattern, case ignored, makes on a string. The query returns the first 25
  documents whose name or plate passes the test.
\<close>

definition find_regex ::
  "(string \<Rightarrow> (string \<Rightarrow> bool) option) \<Rightarrow> collection \<Rightarrow> string \<Rightarrow> car list option" where
  "find_regex regex coll focused =
     (case regex focused of
        None \<Rightarrow> None
      | Some test \<Rightarrow> Some (take 25 (filter (\<lambda>c. test (carName c) \<or> test (numberPlate c)) coll)))"

definition suggestion :: "(int \<Rightarrow> rat) \<Rightarrow> int \<Rightarrow> car \<Rightarrow> string \<times> string" where
  "suggestion off now car =
     (carName car @ '' - '' @ numberPlate car
        @ '' ('' @ toString (getDaysLeft off now (expiryDate car)) @ ''d)'',
      numberPlate car)"

text \<open>
  The \<open>try\<close> block of the autocomplete branch builds the options and answers with them.
  When the query throws, the \<open>catch\<close> block calls \<open>Logger.error\<close> before it would answer
  with the empty list: it throws \<open>TypeError\<close> and nothing is answered. An answer that the
  platform refuses is not part of the model.
\<close>

definition autocomplete_options ::
  "(string \<Rightarrow> (string \<Rightarrow> bool) option) \<Rightarrow> (int \<Rightarrow> rat) \<Rightarrow> int \<Rightarrow> collection \<Rightarrow> string
     \<Rightarrow> js_error + (string \<times> string) list" where
  "autocomplete_options regex off now coll focused =
     (case find_regex regex coll focused of
        None \<Rightarrow> Inl TypeError
      | Some cars \<Rightarrow>
          let options = map (suggestion off now) cars
          in if length options = 0 \<and> focused \<noteq> []
             then Inr (options @ [(''Add New: '' @ [CHR 0x22] @ focused @ [CHR 0x22],
                                   ''new_car_'' @ focused)])
             else Inr options)"

text \<open>
  What \<open>interactionCreate\<close> does with an interaction: nothing, the answer to an
  autocomplete request, the denial, the call of the handler of a command, or an error that
  leaves the listener (its own \<open>catch\<close> block calls \<open>Logger.error\<close> too).
\<close>

datatype response =
    NoResponse
  | Suggestions "(string \<times> string) list"
  | AccessDenied
  | Dispatched string
  | Threw js_error

definition interactionCreate ::
  "env \<Rightarrow> (string \<Rightarrow> (string \<Rightarrow> bool) option) \<Rightarrow> (int \<Rightarrow> rat) \<Rightarrow> int \<Rightarrow> collection \<Rightarrow> interaction
     \<Rightarrow> response" where
  "interactionCreate e regex off now coll i =
     (if \<not> inGuild i then NoResponse
      else case itype i of
        Autocomplete \<Rightarrow>
          if commandName i \<in> set [''add_car_insurance'', ''less_car_insurance'',
                                   ''remove_car_insurance'']
          then (case autocomplete_options regex off now coll (focusedValue i) of
                  Inr options \<Rightarrow> Suggestions options
                | Inl err \<Rightarrow> Threw TypeError)
          else NoResponse
      | Command \<Rightarrow>
          if \<not> checkRoles e (memberRoles i) then AccessDenied
          else if commandName i \<in> set [''new_car_insurance'', ''add_car_insurance'',
                   ''less_car_insurance'', ''list_car_insurance'', ''alert_insurance'',
                   ''dm_car_insurance_list'', ''dm_alert_car_insurance'',
                   ''remove_car_insurance'']
          then Dispatched (commandName i)
          else NoResponse
      | OtherInteraction \<Rightarrow> NoResponse)"

section \<open>Properties of the classifier\<close>




lemma getDaysLeft_same_offset:
  assumes "off now = off e"
  shows "getDaysLeft off now e = - ((now - e) div msPerDay)"
proof -
  have "getDaysLeft off now e = \<lceil>(of_int (e - now) :: rat) / of_int msPerDay\<rceil>"
    using assms by (simp add: getDaysLeft_def diff_days_def msPerDay_def)
  also have "\<dots> = - (- (e - now) div msPerDay)"
    by (rule ceiling_divide_eq_div)
  finally show ?thesis by simp
qed


section \<open>Properties of the pager\<close>

lemma chunkArray_loop_chunks:
  assumes "0 < n" "a < length st"
  shows "chunkArray_loop st a n res = Some (res @ chunks_of (nat n) (st ! a), st[a := []])"
  using assms(2)
proof (induction "length (st ! a)" arbitrary: st res rule: less_induct)
  case less
  show ?case
  proof (cases "st ! a = []")
    case True
    then have "st[a := []] = st" by (metis list_update_id)
    with True show ?thesis
      by (subst chunkArray_loop.simps) (simp add: chunks_of.simps)
  next
    case False
    let ?st' = "st[a := drop (nat n) (st ! a)]"
    have len: "length (?st' ! a) < length (st ! a)"
      using False assms(1) less.prems by simp
    have a': "a < length ?st'" using less.prems by simp
    have IH: "chunkArray_loop ?st' a n (res @ [take (nat n) (st ! a)])
        = Some ((res @ [take (nat n) (st ! a)]) @ chunks_of (nat n) (?st' ! a), ?st'[a := []])"
      using less.hyps [OF len a'] .
    have unfold: "chunks_of (nat n) (st ! a)
        = take (nat n) (st ! a) # chunks_of (nat n) (drop (nat n) (st ! a))"
      using False assms(1) by (subst chunks_of.simps) simp
    show ?thesis
      using False IH less.prems unfold
      by (subst chunkArray_loop.simps) (simp add: splice0_def)
  qed
qed

lemma concat_chunks_of: "0 < n \<Longrightarrow> concat (chunks_of n xs) = xs"
proof (induction n xs rule: chunks_of.induct)
  case (1 n xs)
  then show ?case by (subst chunks_of.simps) auto
qed

lemma chunks_of_nonempty_pages: "[] \<notin> set (chunks_of n xs)"
proof (induction n xs rule: chunks_of.induct)
  case (1 n xs)
  then show ?case by (subst chunks_of.simps) auto
qed


lemma chunk_count_step:
  fixes n L :: nat
  assumes "0 < n" "0 < L"
  shows "Suc ((L - n + n - 1) div n) = (L + n - 1) div n"
proof -
  have e: "L + n - 1 = (L - 1) + n" using assms by simp
  have "((L - 1) + n) div n = (L - 1) div n + 1"
    using assms(1) by (intro div_add_self2) simp
  then have r: "(L + n - 1) div n = Suc ((L - 1) div n)"
    by (simp only: e Suc_eq_plus1)
  show ?thesis
  proof (cases "n \<le> L")
    case True
    then have "L - n + n - 1 = L - 1" by simp
    then show ?thesis by (simp only: r)
  next
    case False
    then have a: "L - n + n - 1 = n - 1" by simp
    have "(n - 1) div n = 0" using assms(1) by simp
    moreover have "(L - 1) div n = 0" using False assms by simp
    ultimately show ?thesis by (simp only: r a)
  qed
qed

lemma length_chunks_of: "0 < n \<Longrightarrow> length (chunks_of n xs) = (length xs + n - 1) div n"
proof (induction n xs rule: chunks_of.induct)
  case (1 n xs)
  show ?case
  proof (cases "xs = []")
    case True
    have "chunks_of n xs = []" using True by (subst chunks_of.simps) simp
    moreover have "(length xs + n - 1) div n = 0" using True 1(2) by simp
    ultimately show ?thesis by simp
  next
    case False
    have unfold: "chunks_of n xs = take n xs # chunks_of n (drop n xs)"
      using False 1(2) by (subst chunks_of.simps) simp
    have IH: "length (chunks_of n (drop n xs)) = (length (drop n xs) + n - 1) div n"
      using 1(1) False 1(2) by blast
    have "length (chunks_of n xs) = Suc ((length xs - n + n - 1) div n)"
      by (simp only: unfold IH length_Cons length_drop)
    also have "\<dots> = (length xs + n - 1) div n"
      using False 1(2) by (intro chunk_count_step) simp_all
    finally show ?thesis .
  qed
qed

lemma nth_chunks_of:
  "0 < n \<Longrightarrow> i < length (chunks_of n xs) \<Longrightarrow> chunks_of n xs ! i = take n (drop (i * n) xs)"
proof (induction n xs arbitrary: i rule: chunks_of.induct)
  case (1 n xs)
  show ?case
  proof (cases "xs = []")
    case True
    then show ?thesis using 1(3) by (simp add: chunks_of.simps)
  next
    case False
    have unfold: "chunks_of n xs = take n xs # chunks_of n (drop n xs)"
      using False 1(2) by (subst chunks_of.simps) simp
    show ?thesis
    proof (cases i)
      case 0
      then show ?thesis using unfold by simp
    next
      case (Suc j)
      then have "j < length (chunks_of n (drop n xs))" using 1(3) unfold by simp
      then have "chunks_of n (drop n xs) ! j = take n (drop (j * n) (drop n xs))"
        using 1(1) False 1(2) by simp
      then show ?thesis using Suc unfold by (simp add: add.commute)
    qed
  qed
qed


lemma count10_bounds:
  fixes L :: nat
  shows "(L + 9) div 10 * 10 \<le> L + 9" and "L \<le> (L + 9) div 10 * 10"
proof -
  show "(L + 9) div 10 * 10 \<le> L + 9" by (rule div_times_less_eq_dividend)
  have "L + 9 < 10 + (L + 9) div 10 * 10" by (rule dividend_less_div_times) simp
  then show "L \<le> (L + 9) div 10 * 10" by linarith
qed

lemma full_page10:
  fixes L i :: nat
  assumes "i + 1 < (L + 9) div 10"
  shows "min 10 (L - i * 10) = 10"
proof -
  define k where "k = (L + 9) div 10"
  have k: "i + 1 < k" "k * 10 \<le> L + 9"
    using assms count10_bounds(1) [of L] by (simp_all add: k_def)
  have "i + 2 \<le> k" using k(1) by simp
  then have "(i + 2) * 10 \<le> k * 10" by (rule mult_le_mono1)
  then have "i * 10 + 20 \<le> L + 9" using k(2) by simp
  then show ?thesis by simp
qed

lemma last_page10:
  fixes L :: nat
  assumes "0 < (L + 9) div 10"
  shows "min 10 (L - ((L + 9) div 10 - 1) * 10) = (if L mod 10 = 0 then 10 else L mod 10)"
proof -
  define k where "k = (L + 9) div 10"
  define m where "m = L - (k - 1) * 10"
  have k: "0 < k" "k * 10 \<le> L + 9" "L \<le> k * 10"
    using assms count10_bounds [of L] by (simp_all add: k_def)
  have km: "(k - 1) * 10 + 10 = k * 10" using k(1) by (cases k) simp_all
  have m: "0 < m" "m \<le> 10" "L = (k - 1) * 10 + m"
    using k km by (simp_all add: m_def)
  have md: "L mod 10 = m mod 10" by (subst m(3)) simp
  have "min 10 m = (if L mod 10 = 0 then 10 else L mod 10)"
  proof (cases "m = 10")
    case True
    then show ?thesis using md by simp
  next
    case False
    then have "m < 10" using m(2) by simp
    then show ?thesis using md m(1) by simp
  qed
  then show ?thesis by (simp only: m_def k_def)
qed

lemma ceiling_tenth: "\<lceil>(of_nat L :: rat) / 10\<rceil> = int ((L + 9) div 10)"
proof -
  define k where "k = (L + 9) div 10"
  have k: "k * 10 \<le> L + 9" "L \<le> k * 10"
    using count10_bounds [of L] by (simp_all add: k_def)
  have "k * 10 < L + 10" using k(1) by linarith
  then have "(of_nat (k * 10) :: rat) < of_nat (L + 10)" by (simp only: of_nat_less_iff)
  then have lo: "(of_int (int k) :: rat) - 1 < of_nat L / 10" by (simp add: field_simps)
  have "(of_nat L :: rat) \<le> of_nat (k * 10)" using k(2) by (simp only: of_nat_le_iff)
  then have hi: "(of_nat L :: rat) / 10 \<le> of_int (int k)" by (simp add: field_simps)
  show ?thesis using lo hi unfolding k_def [symmetric] by (rule ceiling_unique)
qed

lemma chunkArray_pages:
  assumes "0 < n" "a < length st"
  shows "chunkArray st a n = Some (chunks_of (nat n) (st ! a), st[a := []])"
  using chunkArray_loop_chunks [OF assms, of "[]"] by (simp add: chunkArray_def)

lemma length_page:
  assumes "0 < n" "i < length (chunks_of n xs)"
  shows "length (chunks_of n xs ! i) = min n (length xs - i * n)"
  using nth_chunks_of [OF assms] by simp

text \<open>
  With a page size of 0 or less the loop removes nothing from an array that is not empty,
  and never returns.
\<close>

lemma chunkArray_loop_never_returns:
  assumes "chunkArray_loop st a n res = Some y"
  shows "\<not> (n \<le> 0 \<and> a < length st \<and> st ! a \<noteq> [])"
proof (rule chunkArray_loop.raw_induct
    [where P = "\<lambda>st a n res y. \<not> (n \<le> 0 \<and> a < length st \<and> st ! a \<noteq> [])", OF _ assms])
  fix loop :: "'a arrays \<Rightarrow> nat \<Rightarrow> int \<Rightarrow> 'a list list \<Rightarrow> ('a list list \<times> 'a arrays) option"
  fix st a n res y
  assume IH: "\<And>st a n res y. loop st a n res = Some y \<Longrightarrow>
                \<not> (n \<le> 0 \<and> a < length st \<and> st ! a \<noteq> [])"
  assume body: "(if length (st ! a) \<noteq> 0
      then case splice0 (st ! a) n of
           (removed, remaining) \<Rightarrow> loop (st[a := remaining]) a n (res @ [removed])
      else Some (res, st)) = Some y"
  show "\<not> (n \<le> 0 \<and> a < length st \<and> st ! a \<noteq> [])"
  proof
    assume h: "n \<le> 0 \<and> a < length st \<and> st ! a \<noteq> []"
    then have same: "st[a := drop (nat n) (st ! a)] = st" by simp
    from body h have "loop (st[a := drop (nat n) (st ! a)]) a n (res @ [take (nat n) (st ! a)]) = Some y"
      by (simp add: splice0_def)
    then have "loop st a n (res @ [take (nat n) (st ! a)]) = Some y"
      by (simp only: same)
    then have "\<not> (n \<le> 0 \<and> a < length st \<and> st ! a \<noteq> [])" by (rule IH)
    then show False using h by simp
  qed
qed

lemma chunkArray_diverges:
  assumes "n \<le> 0" and "a < length st" and "st ! a \<noteq> []"
  shows "chunkArray st a n = None"
proof (cases "chunkArray st a n")
  case None
  then show ?thesis .
next
  case (Some y)
  then have "chunkArray_loop st a n [] = Some y" by (simp add: chunkArray_def)
  then have "\<not> (n \<le> 0 \<and> a < length st \<and> st ! a \<noteq> [])"
    by (rule chunkArray_loop_never_returns)
  then show ?thesis using assms by simp
qed

text \<open>
  Claim C2. For every array and page size 10, \<open>chunkArray\<close> returns; the pages
  concatenated in order are the contents the array had; every page but the last holds
  exactly 10 records and the last holds the remainder (10 when the count is a multiple of
  10); the number of pages is the ceiling of count / 10; and an empty array gives no
  page at all (no page is ever empty).
\<close>

theorem chunkArray_partition:
  assumes "array < length st"
  shows "\<exists>pages st'. chunkArray st array 10 = Some (pages, st')
     \<and> concat pages = st ! array
     \<and> (\<forall>i. i + 1 < length pages \<longrightarrow> length (pages ! i) = 10)
     \<and> (pages \<noteq> [] \<longrightarrow> length (last pages) =
           (if length (st ! array) mod 10 = 0 then 10 else length (st ! array) mod 10))
     \<and> int (length pages) = \<lceil>(of_nat (length (st ! array)) :: rat) / 10\<rceil>
     \<and> (st ! array = [] \<longrightarrow> pages = [])
     \<and> [] \<notin> set pages"
proof -
  define xs where "xs = st ! array"
  define pages where "pages = chunks_of 10 xs"
  have run: "chunkArray st array 10 = Some (pages, st[array := []])"
    using chunkArray_pages [of 10 array st] assms by (simp add: pages_def xs_def)
  have cat: "concat pages = xs" by (simp add: pages_def concat_chunks_of)
  have count: "length pages = (length xs + 9) div 10"
    by (simp add: pages_def length_chunks_of)
  have page: "length (pages ! i) = min 10 (length xs - i * 10)" if "i < length pages" for i
    using that length_page [of 10 i xs] by (simp add: pages_def)
  have full: "length (pages ! i) = 10" if "i + 1 < length pages" for i
  proof -
    have "i < length pages" using that by simp
    then have "length (pages ! i) = min 10 (length xs - i * 10)" by (rule page)
    also have "\<dots> = 10" using that by (intro full_page10) (simp only: count)
    finally show ?thesis .
  qed
  have lastp: "length (last pages) = (if length xs mod 10 = 0 then 10 else length xs mod 10)"
    if "pages \<noteq> []"
  proof -
    have pos: "0 < length pages" using that by simp
    then have "last pages = pages ! (length pages - 1)" using that by (simp add: last_conv_nth)
    then have "length (last pages) = min 10 (length xs - (length pages - 1) * 10)"
      using page [of "length pages - 1"] pos by simp
    also have "\<dots> = (if length xs mod 10 = 0 then 10 else length xs mod 10)"
      using pos unfolding count by (rule last_page10)
    finally show ?thesis .
  qed
  have ceil: "int (length pages) = \<lceil>(of_nat (length xs) :: rat) / 10\<rceil>"
    by (simp only: count ceiling_tenth)
  have empty: "pages = []" if "xs = []"
    using that by (simp add: pages_def chunks_of.simps)
  have nonempty: "[] \<notin> set pages" by (simp add: pages_def chunks_of_nonempty_pages)
  show ?thesis
    using run cat full lastp ceil empty nonempty unfolding xs_def by blast
qed

theorem chunkArray_partition_witness:
  "(0::nat) < length [[1::nat, 2, 3, 4, 5, 6, 7, 8, 9, 10, 11, 12]]
   \<and> (\<exists>pages st'. chunkArray [[1::nat, 2, 3, 4, 5, 6, 7, 8, 9, 10, 11, 12]] 0 10 = Some (pages, st')
        \<and> concat pages = [1, 2, 3, 4, 5, 6, 7, 8, 9, 10, 11, 12]
        \<and> length (pages ! 0) = 10
        \<and> length (last pages) = 2
        \<and> length pages = 2)"
proof -
  let ?st = "[[1::nat, 2, 3, 4, 5, 6, 7, 8, 9, 10, 11, 12]]"
  have h: "(0::nat) < length ?st" by simp
  obtain pages st' where run: "chunkArray ?st 0 10 = Some (pages, st')"
    and cat: "concat pages = ?st ! 0"
    and full: "\<forall>i. i + 1 < length pages \<longrightarrow> length (pages ! i) = 10"
    and lastp: "pages \<noteq> [] \<longrightarrow> length (last pages) =
           (if length (?st ! 0) mod 10 = 0 then 10 else length (?st ! 0) mod 10)"
    and ceil: "int (length pages) = \<lceil>(of_nat (length (?st ! 0)) :: rat) / 10\<rceil>"
    using chunkArray_partition [OF h] by blast
  have len: "length (?st ! 0) = 12" by simp
  have n: "length pages = 2" using ceil unfolding len ceiling_tenth by simp
  then have ne: "pages \<noteq> []" by auto
  have "length (pages ! 0) = 10" using full n by simp
  moreover have "length (last pages) = 2" using lastp ne by simp
  ultimately show ?thesis using h run cat n by auto
qed

text \<open>
  Claim C7, as the code has it. The claim that paginating leaves the input sequence
  unchanged fails for \<open>chunkArray\<close>: the array with the elements 1, 2, 3 is empty after
  the call.
\<close>

theorem chunkArray_input_counterexample:
  "chunkArray [[1::nat, 2, 3]] 0 10 = Some ([[1, 2, 3]], [[]])
   \<and> ([[]] :: nat list list) ! 0 \<noteq> [1, 2, 3]"
proof -
  have "chunkArray [[1::nat, 2, 3]] 0 10
      = Some (chunks_of (nat 10) ([[1::nat, 2, 3]] ! 0), [[1::nat, 2, 3]][0 := []])"
    by (rule chunkArray_pages) simp_all
  then show ?thesis by (simp add: chunks_of.simps)
qed

text \<open>
  Claim C7, amended. For a positive page size, \<open>chunkArray\<close> returns, empties the array
  object it is given and changes no other array; the pages depend only on the contents of
  that array and on the page size; and when it is given a spread copy of an array, as
  every caller does, the caller's array and every other array that existed before are
  unchanged while the pages still hold the caller's sequence.
\<close>

theorem chunkArray_consumes_its_argument:
  assumes "a < length st" and "0 < n"
  shows "(\<exists>pages. chunkArray st a n = Some (pages, st[a := []]) \<and> concat pages = st ! a)
    \<and> (\<forall>a' st'. a' < length st' \<and> st' ! a' = st ! a \<longrightarrow>
           map_option fst (chunkArray st' a' n) = map_option fst (chunkArray st a n))
    \<and> (case spread st a of (c, st1) \<Rightarrow>
          \<exists>pages st2. chunkArray st1 c n = Some (pages, st2)
            \<and> concat pages = st ! a
            \<and> st2 ! c = []
            \<and> (\<forall>b < length st. st2 ! b = st ! b))"
proof -
  have own: "\<exists>pages. chunkArray st a n = Some (pages, st[a := []]) \<and> concat pages = st ! a"
    using assms by (simp add: chunkArray_pages concat_chunks_of)
  have det: "map_option fst (chunkArray st' a' n) = map_option fst (chunkArray st a n)"
    if "a' < length st'" "st' ! a' = st ! a" for a' st'
    using that assms by (simp add: chunkArray_pages)
  let ?c = "length st" and ?st1 = "st @ [st ! a]"
  have run: "chunkArray ?st1 ?c n = Some (chunks_of (nat n) (?st1 ! ?c), ?st1[?c := []])"
    using assms(2) by (intro chunkArray_pages) simp_all
  have "(?st1[?c := []]) ! b = st ! b" if "b < length st" for b
    using that by (simp add: nth_append)
  then have copy: "case spread st a of (c, st1) \<Rightarrow>
          \<exists>pages st2. chunkArray st1 c n = Some (pages, st2)
            \<and> concat pages = st ! a
            \<and> st2 ! c = []
            \<and> (\<forall>b < length st. st2 ! b = st ! b)"
    using run assms(2) by (simp add: spread_def concat_chunks_of)
  show ?thesis using own det copy by blast
qed

theorem chunkArray_consumes_its_argument_witness:
  "(0::nat) < length [[4::nat, 5]] \<and> (0::int) < 1
   \<and> (\<exists>pages. chunkArray [[4::nat, 5]] 0 1 = Some (pages, [[]]) \<and> concat pages = [4, 5])
   \<and> (\<exists>pages st2. chunkArray [[4::nat, 5], [4, 5]] 1 1 = Some (pages, st2)
          \<and> concat pages = [4, 5] \<and> st2 ! 1 = [] \<and> st2 ! 0 = [4, 5])"
  using chunkArray_consumes_its_argument [of 0 "[[4::nat, 5]]" 1]
  by (simp add: spread_def)

section \<open>Properties of the record commands\<close>


lemma findOne_None_iff: "(findOne coll p = None) = (\<forall>c. c \<in> set coll \<longrightarrow> numberPlate c \<noteq> p)"
  by (auto simp add: findOne_def find_None_iff)



lemma findOne_replace_other:
  "numberPlate doc = p \<Longrightarrow> q \<noteq> p \<Longrightarrow> findOne (replace_first p doc coll) q = findOne coll q"
  by (induction coll) (auto simp add: findOne_def)

lemma length_replace_first: "length (replace_first p doc coll) = length coll"
  by (induction coll) auto

lemma digits_nonempty: "digits n \<noteq> []"
  by (subst digits.simps) simp

lemma length_digits: "0 < k \<Longrightarrow> n < 10 ^ k \<Longrightarrow> length (digits n) \<le> k"
proof (induction k arbitrary: n)
  case 0
  then show ?case by simp
next
  case (Suc j)
  show ?case
  proof (cases "n < 10")
    case True
    then show ?thesis by (subst digits.simps) simp
  next
    case False
    then have j: "0 < j" using Suc.prems by (cases j) auto
    have "n div 10 < 10 ^ j" using Suc.prems by (simp add: less_mult_imp_div_less)
    then have "length (digits (n div 10)) \<le> j" using j by (rule Suc.IH [rotated])
    then show ?thesis using False by (subst digits.simps) simp
  qed
qed

lemma toString_days:
  assumes "1 \<le> d" and "d \<le> 9007199254740991"
  shows "toString d \<noteq> [] \<and> length (toString d) \<le> 16"
proof -
  have "nat d < 10 ^ 16" using assms by simp
  then have "length (digits (nat d)) \<le> 16" by (rule length_digits [rotated]) simp
  then show ?thesis using assms by (simp add: toString_def digits_nonempty)
qed

lemma reply_fields:
  assumes "fs \<noteq> []" and "length fs \<le> 25"
  shows "(case reply_built eph (build_embed t None fs) of
            Inr m \<Rightarrow> Replied m | Inl err \<Rightarrow> Thrown TypeError)
       = (if list_all field_ok fs
          then Replied \<lparr>content = None,
                        embeds = [\<lparr>title = t, description = [], field_list = fs\<rparr>],
                        components = [], ephemeral = eph\<rparr>
          else Thrown TypeError)"
  using assms
  by (simp add: reply_built_def build_embed_def addFields_def embed_reply_def)

lemma reply_described_fields:
  assumes "fs \<noteq> []" and "length fs \<le> 25" and "d \<noteq> []" and "length d \<le> 4096"
  shows "reply_built eph (build_embed t (Some d) fs)
       = (if list_all field_ok fs
          then Inr \<lparr>content = None,
                    embeds = [\<lparr>title = t, description = d, field_list = fs\<rparr>],
                    components = [], ephemeral = eph\<rparr>
          else Inl InvalidStringLength)"
  using assms
  by (auto simp add: reply_built_def build_embed_def addFields_def embed_reply_def
      setDescription_def Suc_le_eq)

lemma reply_built_error:
  "reply_built eph (build_embed t d fs) = Inl err \<Longrightarrow> err = InvalidStringLength"
  by (auto simp add: reply_built_def build_embed_def addFields_def setDescription_def
      split: option.splits sum.splits if_splits)



lemma handleNew_valid:
  assumes "plate_pattern plate"
  shows "handleNewCarInsurance addDays fmt now coll user name plate days =
    (case addDays AsiaKolkata now days of
       None \<Rightarrow> (coll, Thrown TypeError)
     | Some expiry \<Rightarrow>
         if name = [] \<or> user = [] then (coll, Thrown TypeError)
         else if findOne coll plate \<noteq> None then
           (coll, Replied \<lparr>content = None,
                    embeds = [\<lparr>title = ''DUPLICATE ENTRY'',
                               description = ''Number plate **'' @ plate @ ''** already exists'',
                               field_list =
                                 [(''Existing Entry'', ''Check `/list_car_insurance`''),
                                  (''Need Help?'', ''Contact server admins'')]\<rparr>],
                    components = [], ephemeral = True\<rparr>)
         else
           (coll @ [\<lparr>carName = name, numberPlate = plate, expiryDate = expiry,
                     addedBy = user, lastUpdated = now\<rparr>],
            case reply_built False
                   (build_embed ''NEW INSURANCE REGISTERED'' None
                      [(''Car Name'', name),
                       (''Number Plate'', plate),
                       (''Expiry Date'', fmt AsiaKolkata expiry),
                       (''Days Valid'', toString days),
                       (''Registered By'', user)]) of
              Inr m \<Rightarrow> Replied m
            | Inl err \<Rightarrow> Thrown TypeError))"
proof -
  have ne: "plate \<noteq> []" and len: "length plate \<le> 15"
    using assms by (auto simp add: plate_pattern_def)
  have dup: "reply_built True
               (build_embed ''DUPLICATE ENTRY''
                  (Some (''Number plate **'' @ plate @ ''** already exists''))
                  [(''Existing Entry'', ''Check `/list_car_insurance`''),
                   (''Need Help?'', ''Contact server admins'')])
       = Inr \<lparr>content = None,
              embeds = [\<lparr>title = ''DUPLICATE ENTRY'',
                         description = ''Number plate **'' @ plate @ ''** already exists'',
                         field_list =
                           [(''Existing Entry'', ''Check `/list_car_insurance`''),
                            (''Need Help?'', ''Contact server admins'')]\<rparr>],
              components = [], ephemeral = True\<rparr>"
    using len by (subst reply_described_fields) (simp_all add: field_ok_def)
  have other: "reply_built False (build_embed t None fs) \<noteq> Inl E11000" for t fs
    using reply_built_error [of False t None fs E11000] by auto
  show ?thesis
    unfolding handleNewCarInsurance_def dup
    using assms ne other
    by (simp add: moment_new_def m_add_def m_tz_def m_format_def m_toDate_def save_new_def
        Let_def split: option.splits sum.splits)
qed

text \<open>
  The branches of the handlers that end before a record is read or written: the plate that
  the autocomplete offered for a new car, the plate that names no record, and the plate
  that does not match the pattern.
\<close>

lemma car_not_found_reply:
  "car_not_found plate =
     (if length (drop 8 plate) \<le> 4054
      then Inr \<lparr>content = None,
                embeds = [\<lparr>title = ''CAR NOT FOUND'',
                           description = ''Use `/new_car_insurance` to register:'' @ [CHR 0x0A]
                                         @ ''**'' @ drop 8 plate @ ''**'',
                           field_list = []\<rparr>],
                components = [], ephemeral = True\<rparr>
      else Inl InvalidStringLength)"
proof -
  have e: "length ''new_car_'' = 8" by simp
  show ?thesis
    unfolding car_not_found_def e
    by (simp add: reply_built_def build_embed_def setDescription_def embed_reply_def)
qed

lemma record_not_found_reply:
  "record_not_found plate =
     (if length plate \<le> 4068
      then Inr \<lparr>content = None,
                embeds = [\<lparr>title = ''RECORD NOT FOUND'',
                           description = ''No insurance found for:'' @ [CHR 0x0A]
                                         @ ''**'' @ plate @ ''**'',
                           field_list = []\<rparr>],
                components = [], ephemeral = True\<rparr>
      else Inl InvalidStringLength)"
  by (auto simp add: record_not_found_def reply_built_def build_embed_def setDescription_def
      embed_reply_def)

lemma handleAdd_new_car_prefix:
  assumes "startsWith plate ''new_car_''"
  shows "handleAddCarInsurance off addDays fmt now coll user plate d
       = (coll, case car_not_found plate of Inr m \<Rightarrow> Replied m | Inl err \<Rightarrow> Thrown err)"
  using assms by (simp add: handleAddCarInsurance_def)

lemma handleLess_new_car_prefix:
  assumes "startsWith plate ''new_car_''"
  shows "handleLessCarInsurance off addDays fmt now coll user plate d
       = (coll, case car_not_found plate of Inr m \<Rightarrow> Replied m | Inl err \<Rightarrow> Thrown err)"
  using assms by (simp add: handleLessCarInsurance_def)

lemma handleAdd_not_found:
  assumes "\<not> startsWith plate ''new_car_''" and "findOne coll plate = None"
  shows "handleAddCarInsurance off addDays fmt now coll user plate d
       = (coll, case record_not_found plate of
                  Inr m \<Rightarrow> Replied m | Inl err \<Rightarrow> Thrown TypeError)"
  using assms by (simp add: handleAddCarInsurance_def split: sum.splits)

lemma handleLess_not_found:
  assumes "\<not> startsWith plate ''new_car_''" and "findOne coll plate = None"
  shows "handleLessCarInsurance off addDays fmt now coll user plate d
       = (coll, case record_not_found plate of
                  Inr m \<Rightarrow> Replied m | Inl err \<Rightarrow> Thrown TypeError)"
  using assms by (simp add: handleLessCarInsurance_def split: sum.splits)

lemma handleNew_invalid_plate:
  assumes "\<not> plate_pattern plate"
  shows "handleNewCarInsurance addDays fmt now coll user name plate days
       = (coll,
          if 1 \<le> length plate \<and> length plate \<le> 1024
          then Replied
                 \<lparr>content = None,
                  embeds = [\<lparr>title = ''INVALID NUMBER PLATE'',
                             description =
                               ''Please use 2-15 alphanumeric characters (hyphens allowed)'',
                             field_list = [(''Your Input'', plate),
                                           (''Example'', ''MH01-AB-1234'')]\<rparr>],
                  components = [], ephemeral = True\<rparr>
          else Thrown TypeError)"
proof -
  have rep: "reply_built True
       (build_embed ''INVALID NUMBER PLATE''
          (Some ''Please use 2-15 alphanumeric characters (hyphens allowed)'')
          [(''Your Input'', plate), (''Example'', ''MH01-AB-1234'')])
     = (if list_all field_ok [(''Your Input'', plate), (''Example'', ''MH01-AB-1234'')]
        then Inr \<lparr>content = None,
                  embeds = [\<lparr>title = ''INVALID NUMBER PLATE'',
                             description =
                               ''Please use 2-15 alphanumeric characters (hyphens allowed)'',
                             field_list = [(''Your Input'', plate),
                                           (''Example'', ''MH01-AB-1234'')]\<rparr>],
                  components = [], ephemeral = True\<rparr>
        else Inl InvalidStringLength)"
    by (rule reply_described_fields) simp_all
  show ?thesis
    unfolding handleNewCarInsurance_def rep
    using assms by (simp add: field_ok_def)
qed

lemma addFields_limit:
  "25 < length (field_list e) + length fs \<Longrightarrow> addFields fs e = Inl InvalidStringLength"
  by (simp add: addFields_def)



lemma getDaysLeft_same_offset_const: "getDaysLeft (\<lambda>t. k) now e = - ((now - e) div msPerDay)"
  by (rule getDaysLeft_same_offset) simp






lemma new_reply:
  assumes "plate_pattern plate" and "1 \<le> days" and "days \<le> 9007199254740991"
  shows "(case reply_built False
                 (build_embed ''NEW INSURANCE REGISTERED'' None
                    [(''Car Name'', name),
                     (''Number Plate'', plate),
                     (''Expiry Date'', a),
                     (''Days Valid'', toString days),
                     (''Registered By'', user)]) of
            Inr m \<Rightarrow> Replied m
          | Inl err \<Rightarrow> Thrown TypeError)
       = (if list_all (\<lambda>v. 1 \<le> length v \<and> length v \<le> 1024) [name, a, user]
          then Replied
                 \<lparr>content = None,
                  embeds = [\<lparr>title = ''NEW INSURANCE REGISTERED'',
                             description = [],
                             field_list =
                               [(''Car Name'', name),
                                (''Number Plate'', plate),
                                (''Expiry Date'', a),
                                (''Days Valid'', toString days),
                                (''Registered By'', user)]\<rparr>],
                  components = [], ephemeral = False\<rparr>
          else Thrown TypeError)"
proof -
  have td: "toString days \<noteq> []" "length (toString days) \<le> 16"
    using toString_days [OF assms(2,3)] by simp_all
  have pl: "plate \<noteq> []" "length plate \<le> 15"
    using assms(1) by (auto simp add: plate_pattern_def)
  show ?thesis
    using td pl by (subst reply_fields) (auto simp add: field_ok_def Suc_le_eq)
qed



text \<open>
  Claim C4, as the code has it. A plate that differs from a stored plate only in the case
  of its letters is not refused: the create succeeds and the store holds both records.
\<close>

theorem create_case_variant_counterexample:
  "fold_case ''mh01-ab-1234'' = fold_case ''MH01-AB-1234''
   \<and> handleNewCarInsurance addDays_fixed (\<lambda>z t. toString (t div 86400000)) 0
        [\<lparr>carName = ''Swift'', numberPlate = ''MH01-AB-1234'', expiryDate = 432000000,
          addedBy = ''asha'', lastUpdated = 0\<rparr>] ''ravi'' ''Polo'' ''mh01-ab-1234'' 30
      = ([\<lparr>carName = ''Swift'', numberPlate = ''MH01-AB-1234'', expiryDate = 432000000,
           addedBy = ''asha'', lastUpdated = 0\<rparr>,
          \<lparr>carName = ''Polo'', numberPlate = ''mh01-ab-1234'', expiryDate = 2592000000,
           addedBy = ''ravi'', lastUpdated = 0\<rparr>],
         Replied
           \<lparr>content = None,
            embeds = [\<lparr>title = ''NEW INSURANCE REGISTERED'',
                       description = [],
                       field_list =
                         [(''Car Name'', ''Polo''),
                          (''Number Plate'', ''mh01-ab-1234''),
                          (''Expiry Date'', ''30''),
                          (''Days Valid'', ''30''),
                          (''Registered By'', ''ravi'')]\<rparr>],
            components = [], ephemeral = False\<rparr>)"
proof -
  have up: "fold_case ''mh01-ab-1234'' = fold_case ''MH01-AB-1234''"
    by (simp add: fold_case_def)
  have pat: "plate_pattern ''mh01-ab-1234''" by (simp add: plate_pattern_def plate_char_def)
  have texts: "toString 30 = ''30''"
    by (simp add: toString_def digits.simps digit_char_def)
  have rep: "reply_built False
               (build_embed ''NEW INSURANCE REGISTERED'' None
                  [(''Car Name'', ''Polo''), (''Number Plate'', ''mh01-ab-1234''),
                   (''Expiry Date'', ''30''), (''Days Valid'', ''30''),
                   (''Registered By'', ''ravi'')])
       = Inr \<lparr>content = None,
              embeds = [\<lparr>title = ''NEW INSURANCE REGISTERED'',
                         description = [],
                         field_list =
                           [(''Car Name'', ''Polo''),
                            (''Number Plate'', ''mh01-ab-1234''),
                            (''Expiry Date'', ''30''),
                            (''Days Valid'', ''30''),
                            (''Registered By'', ''ravi'')]\<rparr>],
              components = [], ephemeral = False\<rparr>"
    by (simp add: reply_built_def build_embed_def addFields_def field_ok_def embed_reply_def)
  have run: "handleNewCarInsurance addDays_fixed (\<lambda>z t. toString (t div 86400000)) 0
        [\<lparr>carName = ''Swift'', numberPlate = ''MH01-AB-1234'', expiryDate = 432000000,
          addedBy = ''asha'', lastUpdated = 0\<rparr>] ''ravi'' ''Polo'' ''mh01-ab-1234'' 30
      = ([\<lparr>carName = ''Swift'', numberPlate = ''MH01-AB-1234'', expiryDate = 432000000,
           addedBy = ''asha'', lastUpdated = 0\<rparr>,
          \<lparr>carName = ''Polo'', numberPlate = ''mh01-ab-1234'', expiryDate = 2592000000,
           addedBy = ''ravi'', lastUpdated = 0\<rparr>],
         Replied
           \<lparr>content = None,
            embeds = [\<lparr>title = ''NEW INSURANCE REGISTERED'',
                       description = [],
                       field_list =
                         [(''Car Name'', ''Polo''),
                          (''Number Plate'', ''mh01-ab-1234''),
                          (''Expiry Date'', ''30''),
                          (''Days Valid'', ''30''),
                          (''Registered By'', ''ravi'')]\<rparr>],
            components = [], ephemeral = False\<rparr>)"
    unfolding handleNew_valid [OF pat]
    by (simp add: addDays_fixed_def msPerDay_def findOne_def texts rep)
  show ?thesis using up run by simp
qed

text \<open>
  Claim C4, amended. Plates are unique as they are written. For a create with a plate
  that matches the pattern, a name and a user tag that are not empty, and a number of days
  that the integer option admits and that gives a valid expiry date: when a stored record
  has the very same plate, character by character, the create is answered with the
  notice of the duplicate and the store stays as it was; when no stored record has the
  very same plate (a plate that differs only in case included), the new record is added
  at the end of the store and the stored records stay as they were.
\<close>

theorem create_duplicate_exact_match:
  assumes "plate_pattern plate" and "name \<noteq> []" and "user \<noteq> []"
    and "1 \<le> days" and "days \<le> 9007199254740991"
    and "addDays AsiaKolkata now days = Some expiry"
  shows
   "((\<exists>c. c \<in> set coll \<and> numberPlate c = plate) \<longrightarrow>
        handleNewCarInsurance addDays fmt now coll user name plate days
          = (coll,
             Replied
               \<lparr>content = None,
                embeds = [\<lparr>title = ''DUPLICATE ENTRY'',
                           description = ''Number plate **'' @ plate @ ''** already exists'',
                           field_list =
                             [(''Existing Entry'', ''Check `/list_car_insurance`''),
                              (''Need Help?'', ''Contact server admins'')]\<rparr>],
                components = [], ephemeral = True\<rparr>))
    \<and> ((\<forall>c. c \<in> set coll \<longrightarrow> numberPlate c \<noteq> plate) \<longrightarrow>
        handleNewCarInsurance addDays fmt now coll user name plate days
          = (coll @ [\<lparr>carName = name, numberPlate = plate, expiryDate = expiry,
                      addedBy = user, lastUpdated = now\<rparr>],
             if list_all (\<lambda>v. 1 \<le> length v \<and> length v \<le> 1024)
                  [name, fmt AsiaKolkata expiry, user]
             then Replied
                    \<lparr>content = None,
                     embeds = [\<lparr>title = ''NEW INSURANCE REGISTERED'',
                                description = [],
                                field_list =
                                  [(''Car Name'', name),
                                   (''Number Plate'', plate),
                                   (''Expiry Date'', fmt AsiaKolkata expiry),
                                   (''Days Valid'', toString days),
                                   (''Registered By'', user)]\<rparr>],
                     components = [], ephemeral = False\<rparr>
             else Thrown TypeError))"
proof -
  note ev = handleNew_valid [OF assms(1), of addDays fmt now coll user name days]
  note rep = new_reply [OF assms(1,4,5)]
  show ?thesis
    unfolding ev rep using assms(2,3,6) by (simp add: findOne_None_iff)
qed

theorem create_duplicate_exact_match_witness:
  "plate_pattern ''MH01-AB-1234'' \<and> ''Polo'' \<noteq> [] \<and> ''ravi'' \<noteq> []
   \<and> (1::int) \<le> 30 \<and> (30::int) \<le> 9007199254740991
   \<and> addDays_fixed AsiaKolkata 0 30 = Some 2592000000
   \<and> \<lparr>carName = ''Swift'', numberPlate = ''MH01-AB-1234'', expiryDate = 432000000,
        addedBy = ''asha'', lastUpdated = 0\<rparr>
       \<in> set [\<lparr>carName = ''Swift'', numberPlate = ''MH01-AB-1234'', expiryDate = 432000000,
                addedBy = ''asha'', lastUpdated = 0\<rparr>]
   \<and> handleNewCarInsurance addDays_fixed (\<lambda>z t. toString (t div 86400000)) 0
        [\<lparr>carName = ''Swift'', numberPlate = ''MH01-AB-1234'', expiryDate = 432000000,
          addedBy = ''asha'', lastUpdated = 0\<rparr>] ''ravi'' ''Polo'' ''MH01-AB-1234'' 30
      = ([\<lparr>carName = ''Swift'', numberPlate = ''MH01-AB-1234'', expiryDate = 432000000,
           addedBy = ''asha'', lastUpdated = 0\<rparr>],
         Replied
           \<lparr>content = None,
            embeds = [\<lparr>title = ''DUPLICATE ENTRY'',
                       description = ''Number plate **MH01-AB-1234** already exists'',
                       field_list =
                         [(''Existing Entry'', ''Check `/list_car_insurance`''),
                          (''Need Help?'', ''Contact server admins'')]\<rparr>],
            components = [], ephemeral = True\<rparr>)"
proof -
  let ?F = "\<lambda>(z::tz) (t::int). toString (t div 86400000)"
  let ?c = "\<lparr>carName = ''Swift'', numberPlate = ''MH01-AB-1234'', expiryDate = 432000000,
             addedBy = ''asha'', lastUpdated = 0\<rparr>"
  have h1: "plate_pattern ''MH01-AB-1234''" by (simp add: plate_pattern_def plate_char_def)
  have h2: "''Polo'' \<noteq> []" and h3: "''ravi'' \<noteq> []" by simp_all
  have h4: "(1::int) \<le> 30" and h5: "(30::int) \<le> 9007199254740991" by simp_all
  have h6: "addDays_fixed AsiaKolkata 0 30 = Some 2592000000"
    by (simp add: addDays_fixed_def msPerDay_def)
  show ?thesis
    using h1 h6
      create_duplicate_exact_match
        [where addDays = addDays_fixed and coll = "[?c]" and fmt = ?F and now = 0
           and expiry = 2592000000, OF h1 h2 h3 h4 h5 h6]
    by simp
qed

section \<open>Properties of the daily alert\<close>

lemma chunks_of_step: "xs \<noteq> [] \<Longrightarrow> 0 < n \<Longrightarrow> chunks_of n xs = take n xs # chunks_of n (drop n xs)"
  by (subst chunks_of.simps) simp

lemma chunks_of_Nil: "chunks_of n [] = []"
  by (subst chunks_of.simps) simp

lemma chunks_of_25:
  assumes "length xs = 25"
  shows "chunks_of 10 xs = [take 10 xs, take 10 (drop 10 xs), drop 20 xs]"
proof -
  have a: "xs \<noteq> []" using assms by auto
  have b: "drop 10 xs \<noteq> []" using assms by auto
  have c: "drop 20 xs \<noteq> []" using assms by auto
  have d: "drop 30 xs = []" using assms by auto
  have e: "take 10 (drop 20 xs) = drop 20 xs" using assms by simp
  have "chunks_of 10 xs = take 10 xs # chunks_of 10 (drop 10 xs)"
    using a by (rule chunks_of_step) simp
  also have "chunks_of 10 (drop 10 xs) = take 10 (drop 10 xs) # chunks_of 10 (drop 10 (drop 10 xs))"
    using b by (rule chunks_of_step) simp
  also have "drop 10 (drop 10 xs) = drop 20 xs" by simp
  also have "chunks_of 10 (drop 20 xs) = take 10 (drop 20 xs) # chunks_of 10 (drop 10 (drop 20 xs))"
    using c by (rule chunks_of_step) simp
  also have "drop 10 (drop 20 xs) = drop 30 xs" by simp
  finally show ?thesis by (simp only: d e chunks_of_Nil)
qed

lemma toString_small: "toString 25 = ''25''" "toString 2 = ''2''" "toString 3 = ''3''"
  by (simp_all add: toString_def digits.simps digit_char_def)

text \<open>
  The field of one record, on an example.
\<close>

lemma car_field_example:
  "car_field (\<lambda>t. 330) fold_case (\<lambda>z t. toString (t div 86400000)) (\<lambda>n t. toString (n - t)) 0
     \<lparr>carName = ''car'', numberPlate = ''KA-7'', expiryDate = 86400000, addedBy = ''asha'',
      lastUpdated = 0\<rparr>
   = (''URGENT CAR (KA-7)'',
      ''**Expiry:** 1'' @ [CHR 0x0A] @ ''**Days Left:** 1'' @ [CHR 0x0A]
        @ ''**Added By:** asha'' @ [CHR 0x0A] @ ''**Last Updated:** 0'')"
proof -
  have d: "getDaysLeft (\<lambda>t. 330) 0 86400000 = 1"
    by (simp add: getDaysLeft_same_offset_const msPerDay_def)
  have texts: "toString 1 = ''1''" "toString 0 = ''0''"
    by (simp_all add: toString_def digits.simps digit_char_def)
  show ?thesis
    by (simp add: car_field_def d texts getStatusEmoji_def fold_case_def)
qed

lemma scheduledJob_pages:
  assumes "alertList = filter (\<lambda>car. getDaysLeft off now (expiryDate car) \<le> 3) coll"
    and "alertList \<noteq> []"
  shows "scheduledJob validators e off upper fmt fromNow now (Some posted) coll =
     (case send_chunks validators e off upper fmt fromNow now [alertList, []] 0 0
             (chunks_of 10 alertList) posted of
        (posted', err) \<Rightarrow> Some (job_end (Some posted') err))"
proof -
  have run: "chunkArray [alertList, alertList] (Suc 0) 10
      = Some (chunks_of (nat 10) ([alertList, alertList] ! Suc 0), [alertList, alertList][Suc 0 := []])"
    by (rule chunkArray_pages) simp_all
  show ?thesis
    using assms(2) run
    by (simp add: scheduledJob_def assms(1) [symmetric] spread_def Let_def)
qed

lemma first_page_then_error:
  assumes "chunks = c1 # c2 # rest" and "length (st ! a) = 25"
  shows "send_chunks True e off upper fmt fromNow now st a 0 chunks posted =
     (posted @ [\<lparr>content = alert_content e 0,
                 embeds = [\<lparr>title = ''INSURANCE EXPIRY ALERT'',
                            description = ''**25 CARS NEED ATTENTION!**'',
                            field_list = map (car_field off upper fmt fromNow now) c1\<rparr>],
                 components = [],
                 ephemeral = False\<rparr>],
      Some InvalidStringLength)"
  using assms by (simp add: alert_embed_def setDescription_def toString_small)

lemma scheduled_alert_stops_after_first_page:
  assumes "length (filter (\<lambda>car. getDaysLeft off now (expiryDate car) \<le> 3) coll) = 25"
  shows "scheduledJob True e off upper fmt fromNow now (Some posted) coll =
     Some \<lparr>channel_after =
             Some (posted @ [\<lparr>content = alert_content e 0,
                 embeds = [\<lparr>title = ''INSURANCE EXPIRY ALERT'',
                            description = ''**25 CARS NEED ATTENTION!**'',
                            field_list = map (car_field off upper fmt fromNow now)
                              (take 10 (filter (\<lambda>car. getDaysLeft off now (expiryDate car) \<le> 3)
                                          coll))\<rparr>],
                 components = [],
                 ephemeral = False\<rparr>]),
           caught = Some InvalidStringLength,
           rejected = Some TypeError\<rparr>"
proof -
  define xs where "xs = filter (\<lambda>car. getDaysLeft off now (expiryDate car) \<le> 3) coll"
  have len: "length xs = 25" using assms by (simp add: xs_def)
  then have ne: "xs \<noteq> []" by auto
  have job: "scheduledJob True e off upper fmt fromNow now (Some posted) coll =
     (case send_chunks True e off upper fmt fromNow now [xs, []] 0 0 (chunks_of 10 xs) posted of
        (posted', err) \<Rightarrow> Some (job_end (Some posted') err))"
    using xs_def ne by (rule scheduledJob_pages)
  have pages: "chunks_of 10 xs = take 10 xs # take 10 (drop 10 xs) # [drop 20 xs]"
    using len by (simp add: chunks_of_25)
  have "length ([xs, []] ! 0) = 25" using len by simp
  then show ?thesis
    unfolding xs_def [symmetric] job
    by (simp add: first_page_then_error [OF pages] job_end_def)
qed

text \<open>
  What the loop would post if the builder made no check: with exactly 25 selected records,
  three messages in the order of the pages, with 10, 10 and 5 records, only the first
  with the mention of the roles and the banner, the others titled part 2 and part 3.
\<close>

lemma scheduled_alert_25_pages_unchecked:
  assumes "length (filter (\<lambda>car. getDaysLeft off now (expiryDate car) \<le> 3) coll) = 25"
  shows "\<exists>m1 m2 m3 e1 e2 e3.
      scheduledJob False e off upper fmt fromNow now (Some posted) coll
        = Some \<lparr>channel_after = Some (posted @ [m1, m2, m3]), caught = None, rejected = None\<rparr>
    \<and> embeds m1 = [e1] \<and> embeds m2 = [e2] \<and> embeds m3 = [e3]
    \<and> length (field_list e1) = 10 \<and> length (field_list e2) = 10 \<and> length (field_list e3) = 5
    \<and> field_list e1 @ field_list e2 @ field_list e3
        = map (car_field off upper fmt fromNow now)
            (filter (\<lambda>car. getDaysLeft off now (expiryDate car) \<le> 3) coll)
    \<and> content m1 = Some (''<@&'' @ FOUNDER_ROLE_ID e @ ''> <@&'' @ CO_FOUNDER_ROLE_ID e
                          @ ''> <@&'' @ HIGH_COMMAND_ROLE_ID e @ ''> <@&'' @ SLAYER_ROLE_ID e
                          @ ''>'' @ [CHR 0x0A] @ ''**IMMEDIATE ATTENTION REQUIRED**'')
    \<and> content m2 = None \<and> content m3 = None
    \<and> description e1 = ''**25 CARS NEED ATTENTION!**''
    \<and> description e2 = [] \<and> description e3 = []
    \<and> title e1 = ''INSURANCE EXPIRY ALERT''
    \<and> title e2 = ''INSURANCE EXPIRY ALERT (PART 2)''
    \<and> title e3 = ''INSURANCE EXPIRY ALERT (PART 3)''"
proof -
  define xs where "xs = filter (\<lambda>car. getDaysLeft off now (expiryDate car) \<le> 3) coll"
  have len: "length xs = 25" using assms by (simp add: xs_def)
  then have ne: "xs \<noteq> []" by auto
  have job: "scheduledJob False e off upper fmt fromNow now (Some posted) coll =
     (case send_chunks False e off upper fmt fromNow now [xs, []] 0 0 (chunks_of 10 xs) posted of
        (posted', err) \<Rightarrow> Some (job_end (Some posted') err))"
    using xs_def ne by (rule scheduledJob_pages)
  have pages: "chunks_of 10 xs = [take 10 xs, take 10 (drop 10 xs), drop 20 xs]"
    using len by (rule chunks_of_25)
  have "take 10 (drop 10 xs) @ drop 20 xs = drop 10 xs"
    using append_take_drop_id [of 10 "drop 10 xs"] by simp
  then have "take 10 xs @ take 10 (drop 10 xs) @ drop 20 xs = xs"
    by simp
  then have cat: "map (car_field off upper fmt fromNow now) (take 10 xs)
       @ map (car_field off upper fmt fromNow now) (take 10 (drop 10 xs))
       @ map (car_field off upper fmt fromNow now) (drop 20 xs)
      = map (car_field off upper fmt fromNow now) xs"
    by (metis map_append)
  show ?thesis
    unfolding xs_def [symmetric] job pages
    using len cat
    by (simp add: alert_embed_def setDescription_def alert_content_def toString_small
        job_end_def)
qed

text \<open>
  Without the alert channel the job posts nothing and its promise is rejected.
\<close>

lemma scheduled_alert_no_channel:
  "scheduledJob validators e off upper fmt fromNow now None coll
     = Some \<lparr>channel_after = None, caught = Some TypeError, rejected = Some TypeError\<rparr>"
  by (simp add: scheduledJob_def job_end_def)

text \<open>
  Claim C6, as the code has it. The claim is that with exactly 25 records of at most 3
  days left the daily job posts three pages of 10, 10 and 5 records. The job, run on a
  store of 25 such records with the alert channel present and empty, leaves exactly one
  message in the channel, whose embed has 10 fields, and ends by catching the error of
  the builder: the second page is built with the empty description, which
  \<open>setDescription\<close> refuses, so the second and third pages are never sent. In this run the
  zone has its offset of 330 minutes, and the names are written in the letters a to z,
  whose upper case \<open>fold_case\<close> gives.
\<close>

theorem scheduled_alert_25_first_page_only:
  "map_option (\<lambda>r. (map_option (map (\<lambda>m. map (\<lambda>e. length (field_list e)) (embeds m)))
                       (channel_after r),
                     caught r))
     (scheduledJob True
        \<lparr>ADMIN_ROLE_ID = ''1'', MANAGER_ROLE_ID = ''2'', HIGH_COMMAND_ROLE_ID = ''3'',
         FOUNDER_ROLE_ID = ''4'', CO_FOUNDER_ROLE_ID = ''5'', SLAYER_ROLE_ID = ''6''\<rparr>
        (\<lambda>t. 330) fold_case
        (\<lambda>z t. toString (t div 86400000)) (\<lambda>n t. toString (n - t)) 0 (Some [])
        (map (\<lambda>i. \<lparr>carName = ''car'', numberPlate = ''KA-'' @ toString (int i),
                     expiryDate = 86400000, addedBy = ''asha'', lastUpdated = 0\<rparr>) [0..<25]))
   = Some (Some [[10]], Some InvalidStringLength)"
proof -
  let ?coll = "map (\<lambda>i. \<lparr>carName = ''car'', numberPlate = ''KA-'' @ toString (int i),
                   expiryDate = 86400000, addedBy = ''asha'', lastUpdated = 0\<rparr>) [0..<25]"
  have h: "length (filter (\<lambda>car. getDaysLeft (\<lambda>t. 330) 0 (expiryDate car) \<le> 3) ?coll) = 25"
    by (simp add: filter_map o_def getDaysLeft_same_offset_const msPerDay_def)
  show ?thesis
    unfolding scheduled_alert_stops_after_first_page [OF h]
    using h by simp
qed

section \<open>Properties of the list view\<close>

lemma on_collect_cursor:
  "currentPage v < length pages \<Longrightarrow>
     currentPage (on_collect pages v) = (currentPage v + 1) mod length pages"
  by (simp add: on_collect_def Let_def mod_Suc)

lemma collector_cursor:
  assumes "currentPage v < length pages"
  shows "currentPage (collector operator pages v clicks)
       = (currentPage v + length (filter (list_filter operator) clicks)) mod length pages"
  using assms
proof (induction clicks arbitrary: v)
  case Nil
  then show ?case by simp
next
  case (Cons i rest)
  show ?case
  proof (cases "list_filter operator i")
    case True
    have pos: "0 < length pages" using Cons.prems by auto
    have lt: "currentPage (on_collect pages v) < length pages"
      using pos by (simp add: on_collect_cursor [OF Cons.prems])
    have "currentPage (collector operator pages v (i # rest))
        = (currentPage (on_collect pages v) + length (filter (list_filter operator) rest))
            mod length pages"
      using True Cons.IH [OF lt] by simp
    also have "\<dots> = ((currentPage v + 1) mod length pages
            + length (filter (list_filter operator) rest)) mod length pages"
      using Cons.prems by (simp add: on_collect_cursor)
    also have "\<dots> = (currentPage v + 1 + length (filter (list_filter operator) rest))
            mod length pages"
      by (rule mod_add_left_eq)
    finally show ?thesis using True by simp
  next
    case False
    then show ?thesis using Cons.IH [OF Cons.prems] by simp
  qed
qed

text \<open>
  Claim C8, as the code has it. The claim lets a click on the control for the previous
  page, after the first click, qualify and move the cursor. In the code the filter of the
  collector accepts the custom id of the next control only: with three pages, after one
  click on next the view shows the controls previous and next and the cursor is at 1, and a
  click of the same operator on previous is not collected, so the view stays as it was.
\<close>

theorem list_collector_ignores_previous:
  "list_filter ''op'' \<lparr>clicker = ''op'', customId = ''insurance_list_prev''\<rparr> = False
   \<and> components (shown (list_view ''op''
        [\<lparr>title = ''INSURANCE REGISTRY'', description = [], field_list = []\<rparr>,
         \<lparr>title = ''INSURANCE REGISTRY (PART 2)'', description = [], field_list = []\<rparr>,
         \<lparr>title = ''INSURANCE REGISTRY (PART 3)'', description = [], field_list = []\<rparr>]
        [\<lparr>clicker = ''op'', customId = ''insurance_list_next''\<rparr>]))
       = [''insurance_list_prev'', ''insurance_list_next'']
   \<and> currentPage (list_view ''op''
        [\<lparr>title = ''INSURANCE REGISTRY'', description = [], field_list = []\<rparr>,
         \<lparr>title = ''INSURANCE REGISTRY (PART 2)'', description = [], field_list = []\<rparr>,
         \<lparr>title = ''INSURANCE REGISTRY (PART 3)'', description = [], field_list = []\<rparr>]
        [\<lparr>clicker = ''op'', customId = ''insurance_list_next''\<rparr>]) = 1
   \<and> list_view ''op''
        [\<lparr>title = ''INSURANCE REGISTRY'', description = [], field_list = []\<rparr>,
         \<lparr>title = ''INSURANCE REGISTRY (PART 2)'', description = [], field_list = []\<rparr>,
         \<lparr>title = ''INSURANCE REGISTRY (PART 3)'', description = [], field_list = []\<rparr>]
        [\<lparr>clicker = ''op'', customId = ''insurance_list_next''\<rparr>,
         \<lparr>clicker = ''op'', customId = ''insurance_list_prev''\<rparr>]
     = list_view ''op''
        [\<lparr>title = ''INSURANCE REGISTRY'', description = [], field_list = []\<rparr>,
         \<lparr>title = ''INSURANCE REGISTRY (PART 2)'', description = [], field_list = []\<rparr>,
         \<lparr>title = ''INSURANCE REGISTRY (PART 3)'', description = [], field_list = []\<rparr>]
        [\<lparr>clicker = ''op'', customId = ''insurance_list_next''\<rparr>]"
  by (simp add: list_view_def list_filter_def on_collect_def Let_def)

section \<open>Properties of the dispatch\<close>


lemma checkRoles_iff:
  "checkRoles e roles =
     (ADMIN_ROLE_ID e \<in> set roles \<or> MANAGER_ROLE_ID e \<in> set roles
      \<or> HIGH_COMMAND_ROLE_ID e \<in> set roles \<or> FOUNDER_ROLE_ID e \<in> set roles
      \<or> CO_FOUNDER_ROLE_ID e \<in> set roles)"
  by (simp add: checkRoles_def)

lemma command_dispatch:
  assumes "inGuild i" and "itype i = Command" and "checkRoles e (memberRoles i)"
    and "commandName i = ''add_car_insurance''"
  shows "interactionCreate e regex off now coll i = Dispatched ''add_car_insurance''"
  using assms by (simp add: interactionCreate_def)



end
